theory Spec2Isabelle
  imports Complex_Main "HOL-Library.AList"
begin

section \<open>Data model\<close>

text \<open>
  A node address is the pair \<open>(host, port)\<close> built in \<open>_load_compute_nodes\<close>.
  Python integers are unbounded, so counts and ports are \<open>int\<close>.
\<close>

type_synonym node = "string \<times> int"

text \<open>
  The exceptions that the modelled code paths can raise. \<open>RemoteError\<close> stands for
  whatever the transport or the remote call raises, \<open>ShapeMismatch\<close> for the refusal of
  a wrong-shaped operand by the matrix helper. \<open>NoAvailableNode\<close> is the error kind that
  the specification names for an empty registry; no statement of the source raises it.
\<close>

datatype py_error =
    IndexError
  | ValueError
  | KeyError
  | UnboundLocalError
  | ShapeMismatch
  | RemoteError
  | ZeroDivisionError
  | NoAvailableNode

text \<open>\<open>TaskStatus\<close> of the generated interface types.\<close>

datatype TaskStatus = ACCEPTED | REJECTED

text \<open>
  A numpy array: its shape and its elements in row-major order. Floating-point numbers
  are modelled by the reals; rounding is not modelled.
\<close>

record ndarray =
  shape :: "nat list"
  elems :: "real list"

definition wf_ndarray :: "ndarray \<Rightarrow> bool" where
  "wf_ndarray a = (length (elems a) = prod_list (shape a))"

definition zeros :: "nat list \<Rightarrow> ndarray" where
  "zeros shp = \<lparr>shape = shp, elems = replicate (prod_list shp) 0\<rparr>"

definition zeros_like :: "ndarray \<Rightarrow> ndarray" where
  "zeros_like a = zeros (shape a)"

section \<open>Load tracking and node selection (coordinator)\<close>

text \<open>
  \<open>self.node_load\<close> is a dict. Its iteration order is its insertion order and decides
  the result of \<open>min\<close>, so the dict is an association list; assigning to a key keeps the
  key's position (\<open>AList.update\<close>), and a new key is appended.
\<close>

type_synonym load_dict = "(node \<times> int) list"

text \<open>The trainer object \<open>mlp\<close>: only its two weight matrices are observed here.\<close>

record mlp =
  weights_V :: ndarray
  weights_W :: ndarray

record CoordinatorHandler =
  scheduling_policy :: int
  mlp_model :: mlp
  compute_nodes :: "node list"
  node_load :: load_dict

text \<open>\<open>{node: 0 for node in self.compute_nodes}\<close>\<close>

definition zero_load :: "node list \<Rightarrow> load_dict" where
  "zero_load nodes = foldl (\<lambda>d n. AList.update n 0 d) [] nodes"

text \<open>
  \<open>CoordinatorHandler.__init__\<close>, with the node list as \<open>_load_compute_nodes\<close>
  returned it and the trainer object as \<open>mlp()\<close> built it.
\<close>

definition CoordinatorHandler_init :: "int \<Rightarrow> mlp \<Rightarrow> node list \<Rightarrow> CoordinatorHandler" where
  "CoordinatorHandler_init policy m nodes =
     \<lparr>scheduling_policy = policy, mlp_model = m, compute_nodes = nodes,
      node_load = zero_load nodes\<rparr>"

text \<open>
  \<open>random.choice(seq)\<close>: \<open>IndexError\<close> on an empty sequence, otherwise the element at a
  random index below the length. The random source is the argument \<open>r\<close>.
\<close>

definition random_choice :: "nat \<Rightarrow> 'a list \<Rightarrow> py_error + 'a" where
  "random_choice r xs = (if xs = [] then Inl IndexError else Inr (xs ! (r mod length xs)))"

text \<open>
  \<open>min(iterable, key=f)\<close>: \<open>ValueError\<close> on an empty iterable, otherwise the first
  element whose key is smallest (a later element replaces the candidate only when its key
  is strictly smaller).
\<close>

fun min_from :: "('a \<Rightarrow> int) \<Rightarrow> 'a \<Rightarrow> 'a list \<Rightarrow> 'a" where
  "min_from key best [] = best"
| "min_from key best (x # xs) = min_from key (if key x < key best then x else best) xs"

definition py_min_key :: "('a \<Rightarrow> int) \<Rightarrow> 'a list \<Rightarrow> py_error + 'a" where
  "py_min_key key xs = (case xs of [] \<Rightarrow> Inl ValueError | x # rest \<Rightarrow> Inr (min_from key x rest))"

text \<open>\<open>self.node_load.get\<close> applied to a key of the dict itself.\<close>

definition load_get :: "load_dict \<Rightarrow> node \<Rightarrow> int" where
  "load_get d n = the (map_of d n)"

text \<open>\<open>_select_compute_node\<close>: policy 1 is RANDOM, every other value is LEAST_LOADED.\<close>

definition select_compute_node :: "CoordinatorHandler \<Rightarrow> nat \<Rightarrow> py_error + node" where
  "select_compute_node h r =
     (if scheduling_policy h = 1 then random_choice r (compute_nodes h)
      else py_min_key (load_get (node_load h)) (map fst (node_load h)))"

text \<open>
  \<open>_increment_node_load\<close> and \<open>_decrement_node_load\<close>. Reading a key that is not in
  the dict raises \<open>KeyError\<close> before anything is written.
\<close>

definition increment_node_load :: "node \<Rightarrow> load_dict \<Rightarrow> py_error + load_dict" where
  "increment_node_load n d =
     (case map_of d n of None \<Rightarrow> Inl KeyError | Some c \<Rightarrow> Inr (AList.update n (c + 1) d))"

definition decrement_node_load :: "node \<Rightarrow> load_dict \<Rightarrow> py_error + load_dict" where
  "decrement_node_load n d =
     (case map_of d n of None \<Rightarrow> Inl KeyError | Some c \<Rightarrow> Inr (AList.update n (max 0 (c - 1)) d))"

text \<open>A sequence of tracker operations; an operation that raises leaves the dict as it was.\<close>

datatype load_op = Increment node | Decrement node

fun apply_load_op :: "load_dict \<Rightarrow> load_op \<Rightarrow> load_dict" where
  "apply_load_op d (Increment n) = (case increment_node_load n d of Inl e \<Rightarrow> d | Inr d' \<Rightarrow> d')"
| "apply_load_op d (Decrement n) = (case decrement_node_load n d of Inl e \<Rightarrow> d | Inr d' \<Rightarrow> d')"

definition apply_load_ops :: "load_dict \<Rightarrow> load_op list \<Rightarrow> load_dict" where
  "apply_load_ops d ops = foldl apply_load_op d ops"

definition nonneg_load :: "load_dict \<Rightarrow> bool" where
  "nonneg_load d = (\<forall>n c. map_of d n = Some c \<longrightarrow> 0 \<le> c)"

section \<open>Gradient accumulator (coordinator)\<close>

text \<open>
  Modelled from the spec: the helper \<open>sum_matricies\<close> of the module \<open>ML.ML\<close> is not
  among the sources. The specification describes the accumulation as a pure elementwise
  sum that does not accept a delta whose shape differs from the accumulator's; the helper
  is modelled so, raising \<open>ShapeMismatch\<close> on operands of different shapes.
\<close>

definition sum_matricies :: "ndarray \<Rightarrow> ndarray \<Rightarrow> py_error + ndarray" where
  "sum_matricies a b =
     (if shape a = shape b
      then Inr \<lparr>shape = shape a, elems = map2 (+) (elems a) (elems b)\<rparr>
      else Inl ShapeMismatch)"

text \<open>
  Modelled from the spec: the helper \<open>scale_matricies\<close> of the module \<open>ML.ML\<close> is not
  among the sources. The specification says that the sum is scaled by a factor: every
  element is multiplied by the scalar and the shape is kept.
\<close>

definition scale_matricies :: "ndarray \<Rightarrow> real \<Rightarrow> ndarray" where
  "scale_matricies m s = \<lparr>shape = shape m, elems = map (\<lambda>x. x * s) (elems m)\<rparr>"

text \<open>The class \<open>SharedGradient\<close>; its lock makes each method one atomic step.\<close>

record SharedGradient =
  gradient :: ndarray

definition SharedGradient_init :: "nat list \<Rightarrow> SharedGradient" where
  "SharedGradient_init shp = \<lparr>gradient = zeros shp\<rparr>"

text \<open>
  \<open>update\<close>: the attribute is assigned only when the helper has returned; when the helper
  raises, the exception leaves the method and the attribute keeps its value.
\<close>

definition SharedGradient_update :: "SharedGradient \<Rightarrow> ndarray \<Rightarrow> py_error + SharedGradient" where
  "SharedGradient_update sg local_gradient =
     (case sum_matricies (gradient sg) local_gradient of
        Inl e \<Rightarrow> Inl e
      | Inr g \<Rightarrow> Inr (sg\<lparr>gradient := g\<rparr>))"

text \<open>Python's true division of two integers.\<close>

definition py_truediv :: "int \<Rightarrow> int \<Rightarrow> py_error + real" where
  "py_truediv a b = (if b = 0 then Inl ZeroDivisionError else Inr (real_of_int a / real_of_int b))"

definition SharedGradient_average :: "SharedGradient \<Rightarrow> int \<Rightarrow> py_error + ndarray" where
  "SharedGradient_average sg num_jobs =
     (case py_truediv 1 (max num_jobs 1) of
        Inl e \<Rightarrow> Inl e
      | Inr s \<Rightarrow> Inr (scale_matricies (gradient sg) s))"

definition SharedGradient_reset :: "SharedGradient \<Rightarrow> SharedGradient" where
  "SharedGradient_reset sg = sg\<lparr>gradient := zeros_like (gradient sg)\<rparr>"

section \<open>Admission gate (compute node)\<close>

record ComputeNodeHandler =
  load_probability :: real
  node_mlp :: mlp

text \<open>The thrift struct \<open>MLModel\<close>, its fields already converted by \<open>np.array\<close>.\<close>

record MLModel =
  model_W :: ndarray
  model_V :: ndarray

text \<open>
  \<open>_should_accept_task\<close> and \<open>_inject_load\<close>. Each draws one sample of
  \<open>random.random()\<close>, a number in \<open>[0, 1)\<close>, here the argument \<open>u\<close>. The result of
  \<open>inject_load\<close> tells whether the three-second sleep is taken.
\<close>

definition should_accept_task :: "ComputeNodeHandler \<Rightarrow> real \<Rightarrow> bool" where
  "should_accept_task h u = (u \<ge> load_probability h)"

definition inject_load :: "ComputeNodeHandler \<Rightarrow> real \<Rightarrow> bool" where
  "inject_load h u = (u < load_probability h)"

text \<open>
  \<open>initializeTraining\<close>. The trainer's \<open>init_training_model\<close> is not among the sources
  and is a parameter: from the trainer, the file name and the two matrices it gives the
  success flag and the trainer after the call. The result is the status, the handler after
  the call and whether the call slept.
\<close>

definition initializeTraining ::
  "(mlp \<Rightarrow> string \<Rightarrow> ndarray \<Rightarrow> ndarray \<Rightarrow> bool \<times> mlp) \<Rightarrow> ComputeNodeHandler \<Rightarrow> real \<Rightarrow> real \<Rightarrow>
   string \<Rightarrow> MLModel \<Rightarrow> TaskStatus \<times> ComputeNodeHandler \<times> bool" where
  "initializeTraining init_training_model h u1 u2 filename model =
     (if \<not> should_accept_task h u1 then (REJECTED, h, False)
      else
        let slept = inject_load h u2;
            (success, m) = init_training_model (node_mlp h) filename (model_V model) (model_W model)
        in (if success then ACCEPTED else REJECTED, h\<lparr>node_mlp := m\<rparr>, slept))"

section \<open>Dispatch tasks and the join barrier (coordinator)\<close>

text \<open>
  What the remote node does for one dispatch task is an input of the model: connecting or
  \<open>initializeTraining\<close> raises, or it replies with a status; after \<open>ACCEPTED\<close>,
  \<open>trainModel\<close> raises or returns the gradients \<open>dV\<close> and \<open>dW\<close>.
\<close>

datatype train_reply = TrainRaised | TrainResult ndarray ndarray

datatype remote = InitRaised | InitReplied TaskStatus train_reply

text \<open>
  \<open>thread_func\<close> runs in its own thread. Its steps that touch shared state are each
  atomic under a lock; the program counter of a thread names the next one:
  \<open>Start\<close> before \<open>_increment_node_load\<close>, \<open>Called\<close> before the remote calls,
  \<open>MergeV\<close> and \<open>MergeW\<close> before the two accumulator updates, \<open>Finally\<close> before
  \<open>_decrement_node_load\<close>, \<open>Done\<close> when the thread has ended.
\<close>

datatype pc = Start | Called | MergeV ndarray ndarray | MergeW ndarray | Finally | Done

record thread =
  t_node :: node
  t_file :: string
  t_reply :: remote
  t_pc :: pc

text \<open>
  The lines that are printed: the handler of \<open>thread_func\<close> reporting a failed node, a
  thread ended by an exception outside the \<open>try\<close> block, and the skipped model update.
\<close>

datatype log_entry = NodeFailed node py_error | ThreadDied node py_error | UpdateSkipped

text \<open>An entry of the work queue with the inputs of its dispatch: the random draw and the remote behaviour.\<close>

record task =
  training_file :: string
  draw :: nat
  reply :: remote

record round_state =
  self :: CoordinatorHandler
  shared_gradient_V :: SharedGradient
  shared_gradient_W :: SharedGradient
  threads :: "thread list"
  work_queue :: "task list"
  raised :: "py_error option"
  log_lines :: "log_entry list"

definition set_pc :: "nat \<Rightarrow> pc \<Rightarrow> round_state \<Rightarrow> round_state" where
  "set_pc i p st = st\<lparr>threads := (threads st)[i := (threads st ! i)\<lparr>t_pc := p\<rparr>]\<rparr>"

definition add_log :: "log_entry \<Rightarrow> round_state \<Rightarrow> round_state" where
  "add_log l st = st\<lparr>log_lines := log_lines st @ [l]\<rparr>"

definition set_node_load :: "load_dict \<Rightarrow> round_state \<Rightarrow> round_state" where
  "set_node_load d st = st\<lparr>self := (self st)\<lparr>node_load := d\<rparr>\<rparr>"

text \<open>One atomic step of thread \<open>i\<close> running \<open>thread_func\<close>.\<close>

definition thread_func_step :: "nat \<Rightarrow> round_state \<Rightarrow> round_state" where
  "thread_func_step i st =
     (if i < length (threads st) then
        let t = threads st ! i in
        case t_pc t of
          Start \<Rightarrow>
            (case increment_node_load (t_node t) (node_load (self st)) of
               Inl e \<Rightarrow> set_pc i Done (add_log (ThreadDied (t_node t) e) st)
             | Inr d \<Rightarrow> set_pc i Called (set_node_load d st))
        | Called \<Rightarrow>
            (case t_reply t of
               InitRaised \<Rightarrow> set_pc i Finally (add_log (NodeFailed (t_node t) RemoteError) st)
             | InitReplied status tr \<Rightarrow>
                 if status = ACCEPTED then
                   (case tr of
                      TrainRaised \<Rightarrow> set_pc i Finally (add_log (NodeFailed (t_node t) RemoteError) st)
                    | TrainResult dV dW \<Rightarrow> set_pc i (MergeV dV dW) st)
                 else set_pc i Finally st)
        | MergeV dV dW \<Rightarrow>
            (case SharedGradient_update (shared_gradient_V st) dV of
               Inl e \<Rightarrow> set_pc i Finally (add_log (NodeFailed (t_node t) e) st)
             | Inr g \<Rightarrow> set_pc i (MergeW dW) (st\<lparr>shared_gradient_V := g\<rparr>))
        | MergeW dW \<Rightarrow>
            (case SharedGradient_update (shared_gradient_W st) dW of
               Inl e \<Rightarrow> set_pc i Finally (add_log (NodeFailed (t_node t) e) st)
             | Inr g \<Rightarrow> set_pc i Finally (st\<lparr>shared_gradient_W := g\<rparr>))
        | Finally \<Rightarrow>
            (case decrement_node_load (t_node t) (node_load (self st)) of
               Inl e \<Rightarrow> set_pc i Done (add_log (ThreadDied (t_node t) e) st)
             | Inr d \<Rightarrow> set_pc i Done (set_node_load d st))
        | Done \<Rightarrow> st
      else st)"

text \<open>
  One iteration of the loop over the work queue in \<open>train\<close>: select a node and start a
  thread for the next entry. An exception of the selection is raised in the main thread and
  ends \<open>train\<close>.
\<close>

definition spawn_step :: "round_state \<Rightarrow> round_state" where
  "spawn_step st =
     (case raised st of
        Some e \<Rightarrow> st
      | None \<Rightarrow>
          (case work_queue st of
             [] \<Rightarrow> st
           | tk # rest \<Rightarrow>
               (case select_compute_node (self st) (draw tk) of
                  Inl e \<Rightarrow> st\<lparr>raised := Some e\<rparr>
                | Inr n \<Rightarrow>
                    st\<lparr>threads := threads st @
                         [\<lparr>t_node = n, t_file = training_file tk, t_reply = reply tk, t_pc = Start\<rparr>],
                       work_queue := rest\<rparr>)))"

text \<open>
  An interleaving of the main thread and the dispatch threads is a list of actions:
  \<open>Spawn\<close> lets the main thread take its next iteration, \<open>Run i\<close> lets thread \<open>i\<close>
  take its next atomic step.
\<close>

datatype action = Spawn | Run nat

fun exec_action :: "action \<Rightarrow> round_state \<Rightarrow> round_state" where
  "exec_action Spawn st = spawn_step st"
| "exec_action (Run i) st = thread_func_step i st"

definition run_actions :: "action list \<Rightarrow> round_state \<Rightarrow> round_state" where
  "run_actions acts st = foldl (\<lambda>s a. exec_action a s) st acts"

text \<open>
  After the given interleaving the main thread finishes its loop over the work queue and then
  blocks in \<open>join\<close> until every thread has ended; a thread ends after at most five steps.
  Every complete interleaving is obtained by giving it as the schedule, and every schedule
  is completed to one.
\<close>

definition finish_dispatch :: "round_state \<Rightarrow> round_state" where
  "finish_dispatch st = run_actions (replicate (length (work_queue st)) Spawn) st"

definition join_all :: "round_state \<Rightarrow> round_state" where
  "join_all st =
     run_actions (concat (map (\<lambda>i. replicate 5 (Run i)) [0..<length (threads st)])) st"

definition dispatch_and_join :: "action list \<Rightarrow> round_state \<Rightarrow> round_state" where
  "dispatch_and_join sched st = join_all (finish_dispatch (run_actions sched st))"


section \<open>Rounds and \<open>train\<close> (coordinator)\<close>

text \<open>\<open>get_weights\<close> of the trainer.\<close>

definition get_weights :: "mlp \<Rightarrow> ndarray \<times> ndarray" where
  "get_weights m = (weights_V m, weights_W m)"

text \<open>
  Modelled from the spec: the trainer's \<open>update_weights\<close> of the module \<open>ML.ML\<close> is not
  among the sources. The specification gives the update as \<open>weights += gradient\<close>, an
  elementwise sum on each of the two matrices.
\<close>

definition add_elementwise :: "ndarray \<Rightarrow> ndarray \<Rightarrow> ndarray" where
  "add_elementwise a b = \<lparr>shape = shape a, elems = map2 (+) (elems a) (elems b)\<rparr>"

definition update_weights :: "mlp \<Rightarrow> ndarray \<Rightarrow> ndarray \<Rightarrow> mlp" where
  "update_weights m dV dW =
     m\<lparr>weights_V := add_elementwise (weights_V m) dV, weights_W := add_elementwise (weights_W m) dW\<rparr>"

text \<open>
  The inputs of one round: for each queue entry the random draw of its selection and the
  behaviour of the remote node, and the interleaving of the threads.
\<close>

record round_env =
  draws :: "nat \<Rightarrow> nat"
  replies :: "nat \<Rightarrow> remote"
  sched :: "action list"

text \<open>\<open>str(i)\<close> for a non-negative integer: its decimal digits.\<close>

fun str_nat :: "nat \<Rightarrow> string" where
  "str_nat n =
     (if n < 10 then [char_of (48 + n)] else str_nat (n div 10) @ [char_of (48 + n mod 10)])"

declare str_nat.simps [simp del]

text \<open>
  The work queue of a round, \<open>f"{dir}/train_letters{i}.txt"\<close> for \<open>i\<close> in
  \<open>range(1, 12)\<close>; the inputs of an entry are those given for its number \<open>i\<close>.
\<close>

definition make_work_queue :: "string \<Rightarrow> round_env \<Rightarrow> task list" where
  "make_work_queue dir env =
     map (\<lambda>i. \<lparr>training_file = dir @ ''/train_letters'' @ str_nat i @ ''.txt'',
                draw = draws env i, reply = replies env i\<rparr>) [1..<12]"

text \<open>The state that the loop of \<open>train\<close> carries from round to round.\<close>

record loop_state =
  ls_self :: CoordinatorHandler
  ls_gradient_V :: SharedGradient
  ls_gradient_W :: SharedGradient
  val_error :: "real option"
  ls_log :: "log_entry list"

text \<open>
  The model update of a round: applied when both averaged shapes equal the shapes of the
  weights read at the start of the round, skipped with a printed line otherwise.
\<close>

definition apply_update ::
  "CoordinatorHandler \<Rightarrow> ndarray \<Rightarrow> ndarray \<Rightarrow> ndarray \<Rightarrow> ndarray \<Rightarrow> CoordinatorHandler \<times> log_entry list" where
  "apply_update h avg_gradient_V avg_gradient_W V W =
     (if shape avg_gradient_W = shape W \<and> shape avg_gradient_V = shape V
      then (h\<lparr>mlp_model := update_weights (mlp_model h) avg_gradient_V avg_gradient_W\<rparr>, [])
      else (h, [UpdateSkipped]))"

text \<open>
  One iteration of the loop over the rounds. The trainer's \<open>validate\<close> is not among the
  sources and is a parameter, a function of the trainer and the file name.
\<close>

definition training_round ::
  "(mlp \<Rightarrow> string \<Rightarrow> real) \<Rightarrow> string \<Rightarrow> round_env \<Rightarrow> loop_state \<Rightarrow> py_error + loop_state" where
  "training_round validate dir env ls =
     (let (V, W) = get_weights (mlp_model (ls_self ls));
          st0 = \<lparr>self = ls_self ls,
                 shared_gradient_V = SharedGradient_reset (ls_gradient_V ls),
                 shared_gradient_W = SharedGradient_reset (ls_gradient_W ls),
                 threads = [], work_queue = make_work_queue dir env, raised = None,
                 log_lines = ls_log ls\<rparr>;
          st = dispatch_and_join (sched env) st0
      in case raised st of
           Some e \<Rightarrow> Inl e
         | None \<Rightarrow>
             (case SharedGradient_average (shared_gradient_V st) 11 of
                Inl e \<Rightarrow> Inl e
              | Inr avg_gradient_V \<Rightarrow>
                  (case SharedGradient_average (shared_gradient_W st) 11 of
                     Inl e \<Rightarrow> Inl e
                   | Inr avg_gradient_W \<Rightarrow>
                       let (h, lines) = apply_update (self st) avg_gradient_V avg_gradient_W V W
                       in Inr \<lparr>ls_self = h,
                               ls_gradient_V = shared_gradient_V st,
                               ls_gradient_W = shared_gradient_W st,
                               val_error = Some (validate (mlp_model h) (dir @ ''/train_letters11.txt'')),
                               ls_log = log_lines st @ lines\<rparr>)))"

fun train_rounds ::
  "(mlp \<Rightarrow> string \<Rightarrow> real) \<Rightarrow> string \<Rightarrow> (nat \<Rightarrow> round_env) \<Rightarrow> nat list \<Rightarrow> loop_state \<Rightarrow> py_error + loop_state" where
  "train_rounds validate dir envs [] ls = Inr ls"
| "train_rounds validate dir envs (r # rs) ls =
     (case training_round validate dir (envs r) ls of
        Inl e \<Rightarrow> Inl e
      | Inr ls' \<Rightarrow> train_rounds validate dir envs rs ls')"

text \<open>
  \<open>train\<close>. The trainer's \<open>init_training_random\<close> is a parameter as well: from the trainer,
  the file name and the two layer sizes it gives the success flag and the trainer after the
  call. The result is the value that \<open>train\<close> returns, or the exception that leaves it.
\<close>

definition train ::
  "(mlp \<Rightarrow> string \<Rightarrow> int \<Rightarrow> int \<Rightarrow> bool \<times> mlp) \<Rightarrow> (mlp \<Rightarrow> string \<Rightarrow> real) \<Rightarrow> (nat \<Rightarrow> round_env) \<Rightarrow>
   CoordinatorHandler \<Rightarrow> string \<Rightarrow> int \<Rightarrow> int \<Rightarrow> int \<Rightarrow> int \<Rightarrow> real \<Rightarrow> py_error + real" where
  "train init_training_random validate envs h dir rounds epochs hh k eta =
     (let (success, m) = init_training_random (mlp_model h) (dir @ ''/train_letters1.txt'') k hh
      in if \<not> success then Inr (- 1)
         else
           let (V, W) = get_weights m
           in case train_rounds validate dir envs [0..<nat rounds]
                     \<lparr>ls_self = h\<lparr>mlp_model := m\<rparr>,
                      ls_gradient_V = SharedGradient_init (shape V),
                      ls_gradient_W = SharedGradient_init (shape W),
                      val_error = None, ls_log = []\<rparr> of
                Inl e \<Rightarrow> Inl e
              | Inr ls \<Rightarrow> (case val_error ls of None \<Rightarrow> Inl UnboundLocalError | Some v \<Rightarrow> Inr v))"

section \<open>Notions used in the proofs\<close>

text \<open>
  A thread holds a unit of its node's load from its increment to its decrement, that is
  while its program counter is neither \<open>Start\<close> nor \<open>Done\<close>.
\<close>

fun active :: "pc \<Rightarrow> bool" where
  "active Start = False"
| "active Done = False"
| "active _ = True"

definition holds_load :: "node \<Rightarrow> thread \<Rightarrow> int" where
  "holds_load n t = (if t_node t = n \<and> active (t_pc t) then 1 else 0)"

definition inflight :: "thread list \<Rightarrow> node \<Rightarrow> int" where
  "inflight ts n = sum_list (map (holds_load n) ts)"



text \<open>
  A dispatch task that ends without having merged anything into an accumulator whose V sum
  has the shape \<open>sV\<close>: the connection or \<open>initializeTraining\<close> raises, the node
  replies \<open>REJECTED\<close>, \<open>trainModel\<close> raises, or the returned \<open>dV\<close> has not the
  shape \<open>sV\<close> and is refused by the first \<open>update\<close>. A task whose \<open>dV\<close> is merged
  and whose \<open>dW\<close> is then refused is not of this kind, although its thread prints the same
  failure line.
\<close>

fun merges_nothing :: "nat list \<Rightarrow> remote \<Rightarrow> bool" where
  "merges_nothing sV InitRaised = True"
| "merges_nothing sV (InitReplied REJECTED tr) = True"
| "merges_nothing sV (InitReplied ACCEPTED TrainRaised) = True"
| "merges_nothing sV (InitReplied ACCEPTED (TrainResult dV dW)) = (shape dV \<noteq> sV)"

text \<open>What no step of a round changes in the handler.\<close>

definition frame :: "CoordinatorHandler \<Rightarrow> round_state \<Rightarrow> bool" where
  "frame h st =
     (scheduling_policy (self st) = scheduling_policy h \<and>
      compute_nodes (self st) = compute_nodes h \<and>
      mlp_model (self st) = mlp_model h \<and>
      map fst (node_load (self st)) = map fst (node_load h))"



text \<open>The selection has something to select from: a node list under policy 1, a load dict otherwise.\<close>

definition can_select :: "CoordinatorHandler \<Rightarrow> bool" where
  "can_select h = (if scheduling_policy h = 1 then compute_nodes h \<noteq> [] else node_load h \<noteq> [])"

text \<open>
  A round in which no task contributes: every task, started or still queued, merges
  nothing, and no thread is about to merge a gradient that its accumulator accepts.
\<close>

fun no_merge_ahead :: "nat list \<Rightarrow> pc \<Rightarrow> bool" where
  "no_merge_ahead sV (MergeV dV dW) = (shape dV \<noteq> sV)"
| "no_merge_ahead sV (MergeW dW) = False"
| "no_merge_ahead sV p = True"

definition all_fail :: "nat list \<Rightarrow> round_state \<Rightarrow> bool" where
  "all_fail sV st =
     ((\<forall>t \<in> set (threads st). merges_nothing sV (t_reply t) \<and> no_merge_ahead sV (t_pc t)) \<and>
      (\<forall>tk \<in> set (work_queue st). merges_nothing sV (reply tk)))"

section \<open>Node selection\<close>

lemma min_from_split:
  "\<exists>pre post. best # xs = pre @ min_from key best xs # post
     \<and> (\<forall>y \<in> set pre. key (min_from key best xs) < key y)
     \<and> (\<forall>y \<in> set post. key (min_from key best xs) \<le> key y)"
proof (induction xs arbitrary: best)
  case Nil
  have "[best] = [] @ min_from key best [] # []" by simp
  then show ?case by (metis empty_iff list.set(1))
next
  case (Cons x xs)
  define b where "b = (if key x < key best then x else best)"
  define r where "r = min_from key b xs"
  have res: "min_from key best (x # xs) = r" by (simp add: r_def b_def)
  from Cons.IH [of b] obtain pre post where
    sp: "b # xs = pre @ r # post" and
    lt: "\<forall>y \<in> set pre. key r < key y" and
    le: "\<forall>y \<in> set post. key r \<le> key y"
    unfolding r_def by blast
  have r_le_b: "key r \<le> key b"
  proof (cases pre)
    case Nil
    with sp show ?thesis by simp
  next
    case (Cons p ps)
    with sp have "b \<in> set pre" by simp
    with lt show ?thesis by force
  qed
  have goal: "\<exists>pre' post'. best # x # xs = pre' @ r # post'
     \<and> (\<forall>y \<in> set pre'. key r < key y) \<and> (\<forall>y \<in> set post'. key r \<le> key y)"
  proof (cases "key x < key best")
    case True
    then have bx: "b = x" by (simp add: b_def)
    have "best # x # xs = (best # pre) @ r # post" using sp bx by simp
    moreover have "\<forall>y \<in> set (best # pre). key r < key y" using lt r_le_b True bx by auto
    ultimately show ?thesis using le by blast
  next
    case False
    then have bb: "b = best" by (simp add: b_def)
    show ?thesis
    proof (cases pre)
      case Nil
      then have "best # x # xs = [] @ r # (x # xs)" using sp bb by simp
      moreover have "\<forall>y \<in> set (x # xs). key r \<le> key y"
        using le sp Nil False bb by auto
      ultimately show ?thesis by (metis empty_iff list.set(1))
    next
      case (Cons p ps)
      then have xs: "xs = ps @ r # post" and p: "p = best" using sp bb by auto
      have "best # x # xs = (best # x # ps) @ r # post" using xs by simp
      moreover have "\<forall>y \<in> set (best # x # ps). key r < key y"
        using lt Cons p False by auto
      ultimately show ?thesis using le by blast
    qed
  qed
  show ?case unfolding res using goal .
qed

lemma py_min_key_split:
  assumes "xs \<noteq> []"
  shows "\<exists>r pre post. py_min_key key xs = Inr r \<and> xs = pre @ r # post
     \<and> (\<forall>y \<in> set pre. key r < key y) \<and> (\<forall>y \<in> set post. key r \<le> key y)"
proof -
  from assms obtain x rest where xs: "xs = x # rest" by (cases xs) auto
  from min_from_split [of x rest key] show ?thesis
    unfolding xs py_min_key_def by auto
qed

text \<open>
  Claim C5. Under the LEAST_LOADED policy (every policy value other than 1) and a non-empty
  load dict, the selection returns a node of the dict whose tracked count is smallest among
  all nodes of the dict, and every node that comes before it in the iteration order of the
  dict has a strictly larger count: ties go to the first node in registry order. With the
  counts A:3, B:1, C:2 the selection returns B.
\<close>

theorem least_loaded_selects_first_minimum:
  assumes "scheduling_policy h \<noteq> 1" and "node_load h \<noteq> []"
  shows "(\<exists>n c pre post. select_compute_node h r = Inr n
           \<and> map fst (node_load h) = pre @ n # post
           \<and> map_of (node_load h) n = Some c
           \<and> (\<forall>m c'. map_of (node_load h) m = Some c' \<longrightarrow> c \<le> c')
           \<and> (\<forall>m \<in> set pre. \<forall>c'. map_of (node_load h) m = Some c' \<longrightarrow> c < c'))
       \<and> select_compute_node
            (h\<lparr>node_load := [((''A'', 1), 3), ((''B'', 2), 1), ((''C'', 3), 2)]\<rparr>) r = Inr (''B'', 2)"
proof
  let ?d = "node_load h"
  let ?ks = "map fst ?d"
  have ne: "?ks \<noteq> []" using assms(2) by simp
  from py_min_key_split [OF ne, of "load_get ?d"] obtain n pre post where
    sel: "py_min_key (load_get ?d) ?ks = Inr n" and
    sp: "?ks = pre @ n # post" and
    lt: "\<forall>y \<in> set pre. load_get ?d n < load_get ?d y" and
    le: "\<forall>y \<in> set post. load_get ?d n \<le> load_get ?d y"
    by blast
  have "n \<in> set ?ks" using sp by simp
  then have "n \<in> dom (map_of ?d)" by (simp add: dom_map_of_conv_image_fst)
  then obtain c where c: "map_of ?d n = Some c" by blast
  then have gn: "load_get ?d n = c" by (simp add: load_get_def)
  have all: "\<forall>m c'. map_of ?d m = Some c' \<longrightarrow> c \<le> c'"
  proof (intro allI impI)
    fix m c' assume m: "map_of ?d m = Some c'"
    then have "m \<in> set ?ks" by (metis domI dom_map_of_conv_image_fst set_map)
    then have "m \<in> set pre \<or> m = n \<or> m \<in> set post" using sp by auto
    moreover have "load_get ?d m = c'" using m by (simp add: load_get_def)
    ultimately show "c \<le> c'" using lt le gn c m by force
  qed
  have before: "\<forall>m \<in> set pre. \<forall>c'. map_of ?d m = Some c' \<longrightarrow> c < c'"
    using lt gn by (auto simp: load_get_def)
  have "select_compute_node h r = Inr n"
    using sel assms(1) by (simp add: select_compute_node_def)
  with sp c all before
  show "\<exists>n c pre post. select_compute_node h r = Inr n
           \<and> map fst (node_load h) = pre @ n # post
           \<and> map_of (node_load h) n = Some c
           \<and> (\<forall>m c'. map_of (node_load h) m = Some c' \<longrightarrow> c \<le> c')
           \<and> (\<forall>m \<in> set pre. \<forall>c'. map_of (node_load h) m = Some c' \<longrightarrow> c < c')"
    by blast
next
  show "select_compute_node
            (h\<lparr>node_load := [((''A'', 1), 3), ((''B'', 2), 1), ((''C'', 3), 2)]\<rparr>) r = Inr (''B'', 2)"
    using assms(1) by (simp add: select_compute_node_def py_min_key_def load_get_def)
qed

theorem least_loaded_selects_first_minimum_witness:
  "scheduling_policy (CoordinatorHandler_init 2 \<lparr>weights_V = zeros [1], weights_W = zeros [1]\<rparr> [(''A'', 1), (''B'', 2)]) \<noteq> 1
   \<and> node_load (CoordinatorHandler_init 2 \<lparr>weights_V = zeros [1], weights_W = zeros [1]\<rparr> [(''A'', 1), (''B'', 2)]) \<noteq> []
   \<and> select_compute_node
        ((CoordinatorHandler_init 2 \<lparr>weights_V = zeros [1], weights_W = zeros [1]\<rparr> [(''A'', 1), (''B'', 2)])
           \<lparr>node_load := [((''A'', 1), 3), ((''B'', 2), 1), ((''C'', 3), 2)]\<rparr>) 0 = Inr (''B'', 2)"
proof -
  let ?h = "CoordinatorHandler_init 2 \<lparr>weights_V = zeros [1], weights_W = zeros [1]\<rparr> [(''A'', 1), (''B'', 2)]"
  have h1: "scheduling_policy ?h \<noteq> 1" by (simp add: CoordinatorHandler_init_def)
  have h2: "node_load ?h \<noteq> []" by (simp add: CoordinatorHandler_init_def zero_load_def)
  from least_loaded_selects_first_minimum [OF h1 h2, of 0] h1 h2 show ?thesis by blast
qed

text \<open>
  Claim C3, as the code has it. With an empty registry the selection raises the error of
  the library call it makes: \<open>IndexError\<close> from \<open>random.choice\<close> under policy 1,
  \<open>ValueError\<close> from \<open>min\<close> under every other policy. It raises no \<open>NoAvailableNode\<close>.
\<close>

theorem empty_registry_raises_library_error:
  "select_compute_node (CoordinatorHandler_init p m []) r
     = Inl (if p = 1 then IndexError else ValueError)"
  by (simp add: select_compute_node_def CoordinatorHandler_init_def zero_load_def
      random_choice_def py_min_key_def)

text \<open>
  Claim C3, as stated, fails: on the empty registry neither policy raises \<open>NoAvailableNode\<close>.
\<close>

theorem empty_registry_no_explicit_error:
  "select_compute_node (CoordinatorHandler_init 1 \<lparr>weights_V = zeros [1], weights_W = zeros [1]\<rparr> []) 0
      \<noteq> Inl NoAvailableNode
   \<and> select_compute_node (CoordinatorHandler_init 2 \<lparr>weights_V = zeros [1], weights_W = zeros [1]\<rparr> []) 0
      \<noteq> Inl NoAvailableNode"
  by (simp add: select_compute_node_def CoordinatorHandler_init_def zero_load_def
      random_choice_def py_min_key_def)

section \<open>Load tracker\<close>

lemma nonneg_increment:
  "nonneg_load d \<Longrightarrow> increment_node_load n d = Inr d' \<Longrightarrow> nonneg_load d'"
  by (auto simp: nonneg_load_def increment_node_load_def update_conv' split: option.splits if_splits)

lemma nonneg_decrement:
  "nonneg_load d \<Longrightarrow> decrement_node_load n d = Inr d' \<Longrightarrow> nonneg_load d'"
  by (auto simp: nonneg_load_def decrement_node_load_def update_conv' split: option.splits if_splits)

lemma nonneg_apply_load_op: "nonneg_load d \<Longrightarrow> nonneg_load (apply_load_op d op)"
  by (cases op) (auto split: sum.splits dest: nonneg_increment nonneg_decrement)

lemma nonneg_foldl: "nonneg_load d \<Longrightarrow> nonneg_load (foldl apply_load_op d ops)"
  by (induction ops arbitrary: d) (simp_all add: nonneg_apply_load_op)

lemma map_of_zero_load_aux:
  "\<forall>n c. map_of d n = Some c \<longrightarrow> c = 0 \<Longrightarrow>
   map_of (foldl (\<lambda>d n. AList.update n 0 d) d nodes) m = Some c \<Longrightarrow> c = (0::int)"
proof (induction nodes arbitrary: d)
  case Nil
  then show ?case by simp
next
  case (Cons a nodes)
  have "\<forall>n c. map_of (AList.update a 0 d) n = Some c \<longrightarrow> c = 0"
    using Cons.prems(1) by (auto simp: update_conv' split: if_splits)
  from Cons.IH [OF this] Cons.prems(2) show ?case by simp
qed

lemma nonneg_zero_load: "nonneg_load (zero_load nodes)"
  unfolding nonneg_load_def zero_load_def
  using map_of_zero_load_aux [of "[]" nodes] by fastforce

text \<open>
  Claim C6. Whatever operations have been applied, to the dict that the handler starts with
  or to any dict of non-negative counts, every tracked count is non-negative after every
  prefix of the sequence; and a decrement of a count that is 0 leaves it at 0.
\<close>

theorem load_count_never_negative:
  "nonneg_load (apply_load_ops (node_load (CoordinatorHandler_init p m nodes)) (take k ops))
   \<and> (nonneg_load d \<longrightarrow> nonneg_load (apply_load_ops d (take k ops)))
   \<and> (map_of d n = Some 0 \<longrightarrow>
        (\<exists>d'. decrement_node_load n d = Inr d' \<and> map_of d' n = Some 0))"
proof (intro conjI impI)
  show "nonneg_load (apply_load_ops (node_load (CoordinatorHandler_init p m nodes)) (take k ops))"
    by (simp add: apply_load_ops_def CoordinatorHandler_init_def nonneg_foldl nonneg_zero_load)
next
  assume "nonneg_load d"
  then show "nonneg_load (apply_load_ops d (take k ops))"
    by (simp add: apply_load_ops_def nonneg_foldl)
next
  assume "map_of d n = Some 0"
  then show "\<exists>d'. decrement_node_load n d = Inr d' \<and> map_of d' n = Some 0"
    by (simp add: decrement_node_load_def update_conv')
qed

theorem load_count_never_negative_witness:
  "nonneg_load (apply_load_ops (node_load (CoordinatorHandler_init 2 \<lparr>weights_V = zeros [1], weights_W = zeros [1]\<rparr> [(''a'', 1)]))
      (take 3 [Decrement (''a'', 1), Increment (''a'', 1), Decrement (''a'', 1)]))
   \<and> nonneg_load [((''a'', 1), 0)]
   \<and> nonneg_load (apply_load_ops [((''a'', 1), 0)] (take 3 [Decrement (''a'', 1), Increment (''a'', 1), Decrement (''a'', 1)]))
   \<and> map_of [((''a'', 1), 0::int)] (''a'', 1) = Some 0
   \<and> (\<exists>d'. decrement_node_load (''a'', 1) [((''a'', 1), 0)] = Inr d' \<and> map_of d' (''a'', 1) = Some 0)"
proof -
  have h1: "nonneg_load [((''a'', 1), 0)]" by (simp add: nonneg_load_def)
  have h2: "map_of [((''a'', 1), 0::int)] (''a'', 1) = Some 0" by simp
  from load_count_never_negative [of 2 "\<lparr>weights_V = zeros [1], weights_W = zeros [1]\<rparr>" "[(''a'', 1)]" 3
      "[Decrement (''a'', 1), Increment (''a'', 1), Decrement (''a'', 1)]" "[((''a'', 1), 0)]" "(''a'', 1)"]
    h1 h2
  show ?thesis by simp
qed

section \<open>Gradient accumulator\<close>

lemma scale_zeros: "scale_matricies (zeros shp) s = zeros shp"
  by (simp add: scale_matricies_def zeros_def)

text \<open>
  Claim C4. For every accumulator and every integer \<open>n\<close>, \<open>average n\<close> returns the sum
  scaled by \<open>1 / max n 1\<close> and raises nothing; after \<open>reset\<close>, \<open>average 0\<close> returns the
  all-zero array of the accumulator's shape, for a 2 by 2 accumulator the four zeros.
\<close>

theorem average_scales_and_guards_zero:
  "SharedGradient_average sg n = Inr (scale_matricies (gradient sg) (1 / real_of_int (max n 1)))
   \<and> SharedGradient_average (SharedGradient_reset sg) 0 = Inr (zeros (shape (gradient sg)))
   \<and> SharedGradient_average (SharedGradient_reset (SharedGradient_init [2, 2])) 0
       = Inr \<lparr>shape = [2, 2], elems = [0, 0, 0, 0]\<rparr>"
proof (intro conjI)
  show "SharedGradient_average sg n = Inr (scale_matricies (gradient sg) (1 / real_of_int (max n 1)))"
    by (simp add: SharedGradient_average_def py_truediv_def max_def)
  show "SharedGradient_average (SharedGradient_reset sg) 0 = Inr (zeros (shape (gradient sg)))"
    by (simp add: SharedGradient_average_def py_truediv_def SharedGradient_reset_def zeros_like_def scale_zeros)
  show "SharedGradient_average (SharedGradient_reset (SharedGradient_init [2, 2])) 0
       = Inr \<lparr>shape = [2, 2], elems = [0, 0, 0, 0]\<rparr>"
    by (simp add: SharedGradient_average_def py_truediv_def SharedGradient_reset_def zeros_like_def
        SharedGradient_init_def scale_zeros)
       (simp add: zeros_def numeral_eq_Suc)
qed

section \<open>Admission gate\<close>

text \<open>
  Claim C7. For every sample \<open>u\<close> in \<open>[0, 1)\<close>: with load probability 0 the gate accepts,
  and \<open>initializeTraining\<close> replies \<open>ACCEPTED\<close> when the trainer's initialization
  succeeds; with load probability 1 the gate rejects and the reply is \<open>REJECTED\<close>.
\<close>

theorem admission_gate_extremes:
  assumes "0 \<le> u" and "u < 1"
  shows "(load_probability h = 0 \<longrightarrow>
            should_accept_task h u
            \<and> fst (initializeTraining f h u u2 fn model)
                = (if fst (f (node_mlp h) fn (model_V model) (model_W model)) then ACCEPTED else REJECTED))
       \<and> (load_probability h = 1 \<longrightarrow>
            \<not> should_accept_task h u \<and> fst (initializeTraining f h u u2 fn model) = REJECTED)"
  using assms
  by (auto simp: should_accept_task_def initializeTraining_def Let_def split: prod.splits)

theorem admission_gate_extremes_witness:
  "(0::real) \<le> 1 / 2 \<and> (1::real) / 2 < 1
   \<and> should_accept_task \<lparr>load_probability = 0, node_mlp = \<lparr>weights_V = zeros [1], weights_W = zeros [1]\<rparr>\<rparr> (1 / 2)
   \<and> fst (initializeTraining (\<lambda>m f V W. (True, m))
        \<lparr>load_probability = 0, node_mlp = \<lparr>weights_V = zeros [1], weights_W = zeros [1]\<rparr>\<rparr> (1 / 2) (1 / 2) ''f''
        \<lparr>model_W = zeros [1], model_V = zeros [1]\<rparr>) = ACCEPTED"
proof -
  have h1: "(0::real) \<le> 1 / 2" by simp
  have h2: "(1::real) / 2 < 1" by simp
  from admission_gate_extremes [OF h1 h2,
      of "\<lparr>load_probability = 0, node_mlp = \<lparr>weights_V = zeros [1], weights_W = zeros [1]\<rparr>\<rparr>"
         "\<lambda>m f V W. (True, m)" "1 / 2" "''f''" "\<lparr>model_W = zeros [1], model_V = zeros [1]\<rparr>"]
  show ?thesis using h1 h2 by simp
qed

text \<open>
  Claim C9. \<open>initializeTraining\<close> replies \<open>REJECTED\<close> exactly when the gate rejects or
  the gate accepts and the trainer's initialization fails; the reply is the same in both
  cases.
\<close>

theorem rejected_reply_has_two_causes:
  "fst (initializeTraining f h u1 u2 fn model) = REJECTED \<longleftrightarrow>
     (\<not> should_accept_task h u1 \<or> \<not> fst (f (node_mlp h) fn (model_V model) (model_W model)))"
  by (auto simp: initializeTraining_def Let_def split: prod.splits)

theorem rejected_reply_has_two_causes_witness:
  "should_accept_task \<lparr>load_probability = 0, node_mlp = \<lparr>weights_V = zeros [1], weights_W = zeros [1]\<rparr>\<rparr> (1 / 2)
   \<and> fst (initializeTraining (\<lambda>m f V W. (False, m))
        \<lparr>load_probability = 0, node_mlp = \<lparr>weights_V = zeros [1], weights_W = zeros [1]\<rparr>\<rparr> (1 / 2) (1 / 2) ''f''
        \<lparr>model_W = zeros [1], model_V = zeros [1]\<rparr>) = REJECTED"
  using rejected_reply_has_two_causes [of "\<lambda>m f V W. (False, m)"
      "\<lparr>load_probability = 0, node_mlp = \<lparr>weights_V = zeros [1], weights_W = zeros [1]\<rparr>\<rparr>"
      "1 / 2" "1 / 2" "''f''" "\<lparr>model_W = zeros [1], model_V = zeros [1]\<rparr>"]
  by (simp add: should_accept_task_def)

section \<open>The result of \<open>train\<close>\<close>

text \<open>
  Claim C10. After a successful model initialization, \<open>train\<close> with no round to run
  (\<open>rounds\<close> at most 0) raises \<open>UnboundLocalError\<close>, the validation error never having
  been assigned; whenever it returns a value, \<open>rounds\<close> is at least 1.
\<close>

theorem train_zero_rounds_raises:
  assumes "fst (init (mlp_model h) (dir @ ''/train_letters1.txt'') k hh)"
  shows "(rounds \<le> 0 \<longrightarrow> train init validate envs h dir rounds epochs hh k eta = Inl UnboundLocalError)
       \<and> (\<forall>v. train init validate envs h dir rounds epochs hh k eta = Inr v \<longrightarrow> 1 \<le> rounds)"
proof -
  obtain m where m: "init (mlp_model h) (dir @ ''/train_letters1.txt'') k hh = (True, m)"
    using assms by (cases "init (mlp_model h) (dir @ ''/train_letters1.txt'') k hh") auto
  have a: "train init validate envs h dir rounds epochs hh k eta = Inl UnboundLocalError"
    if "rounds \<le> 0"
    using that by (simp add: train_def m get_weights_def)
  have b: "1 \<le> rounds" if "train init validate envs h dir rounds epochs hh k eta = Inr v" for v
  proof (rule ccontr)
    assume "\<not> 1 \<le> rounds"
    then have "rounds \<le> 0" by simp
    from a [OF this] that show False by simp
  qed
  from a b show ?thesis by blast
qed

theorem train_zero_rounds_raises_witness:
  "fst ((\<lambda>m f k hh. (True, m))
          (mlp_model (CoordinatorHandler_init 2 \<lparr>weights_V = zeros [1], weights_W = zeros [1]\<rparr> []))
          (''d'' @ ''/train_letters1.txt'') 3 4)
   \<and> (0::int) \<le> 0
   \<and> train (\<lambda>m f k hh. (True, m)) (\<lambda>m f. 0) (\<lambda>r. \<lparr>draws = (\<lambda>i. 0), replies = (\<lambda>i. InitRaised), sched = []\<rparr>)
        (CoordinatorHandler_init 2 \<lparr>weights_V = zeros [1], weights_W = zeros [1]\<rparr> []) ''d'' 0 1 4 3 1
       = Inl UnboundLocalError"
  using train_zero_rounds_raises [where init = "\<lambda>m f k hh. (True, m)"
      and h = "CoordinatorHandler_init 2 \<lparr>weights_V = zeros [1], weights_W = zeros [1]\<rparr> []"
      and dir = "''d''" and k = 3 and hh = 4 and rounds = 0 and validate = "\<lambda>m f. 0"
      and envs = "\<lambda>r. \<lparr>draws = (\<lambda>i. 0), replies = (\<lambda>i. InitRaised), sched = []\<rparr>"
      and epochs = 1 and eta = 1]
  by simp

section \<open>Steps of a round\<close>

lemma set_pc_simps [simp]:
  "self (set_pc i p st) = self st"
  "shared_gradient_V (set_pc i p st) = shared_gradient_V st"
  "shared_gradient_W (set_pc i p st) = shared_gradient_W st"
  "threads (set_pc i p st) = (threads st)[i := (threads st ! i)\<lparr>t_pc := p\<rparr>]"
  "work_queue (set_pc i p st) = work_queue st"
  "raised (set_pc i p st) = raised st"
  "log_lines (set_pc i p st) = log_lines st"
  by (simp_all add: set_pc_def)

lemma add_log_simps [simp]:
  "self (add_log l st) = self st"
  "shared_gradient_V (add_log l st) = shared_gradient_V st"
  "shared_gradient_W (add_log l st) = shared_gradient_W st"
  "threads (add_log l st) = threads st"
  "work_queue (add_log l st) = work_queue st"
  "raised (add_log l st) = raised st"
  "log_lines (add_log l st) = log_lines st @ [l]"
  by (simp_all add: add_log_def)

lemma set_node_load_simps [simp]:
  "node_load (self (set_node_load d st)) = d"
  "scheduling_policy (self (set_node_load d st)) = scheduling_policy (self st)"
  "compute_nodes (self (set_node_load d st)) = compute_nodes (self st)"
  "mlp_model (self (set_node_load d st)) = mlp_model (self st)"
  "shared_gradient_V (set_node_load d st) = shared_gradient_V st"
  "shared_gradient_W (set_node_load d st) = shared_gradient_W st"
  "threads (set_node_load d st) = threads st"
  "work_queue (set_node_load d st) = work_queue st"
  "raised (set_node_load d st) = raised st"
  "log_lines (set_node_load d st) = log_lines st"
  by (simp_all add: set_node_load_def)

lemma run_actions_Nil [simp]: "run_actions [] st = st"
  by (simp add: run_actions_def)

lemma run_actions_Cons [simp]: "run_actions (a # acts) st = run_actions acts (exec_action a st)"
  by (simp add: run_actions_def)


lemma run_actions_invariant:
  assumes "P st" and "\<And>a s. P s \<Longrightarrow> P (exec_action a s)"
  shows "P (run_actions acts st)"
  using assms(1)
proof (induction acts arbitrary: st)
  case Nil
  then show ?case by simp
next
  case (Cons a acts)
  then show ?case using assms(2) by simp
qed

lemma dispatch_and_join_invariant:
  assumes "P st" and "\<And>a s. P s \<Longrightarrow> P (exec_action a s)"
  shows "P (dispatch_and_join acts st)"
proof -
  have 1: "P (run_actions acts st)"
    using assms by (rule run_actions_invariant)
  have 2: "P (finish_dispatch (run_actions acts st))"
    unfolding finish_dispatch_def using 1 assms(2) by (rule run_actions_invariant)
  show ?thesis
    unfolding dispatch_and_join_def join_all_def using 2 assms(2) by (rule run_actions_invariant)
qed

lemma update_present_keys:
  "map_of d n = Some c \<Longrightarrow> map fst (AList.update n v d) = map fst d"
  by (induction d) (auto split: if_splits)

lemma increment_keys:
  "increment_node_load n d = Inr d' \<Longrightarrow> map fst d' = map fst d"
  by (auto simp: increment_node_load_def update_present_keys split: option.splits)

lemma decrement_keys:
  "decrement_node_load n d = Inr d' \<Longrightarrow> map fst d' = map fst d"
  by (auto simp: decrement_node_load_def update_present_keys split: option.splits)

lemma step_out_of_range: "\<not> i < length (threads st) \<Longrightarrow> thread_func_step i st = st"
  by (simp add: thread_func_step_def Let_def)

lemma step_Start:
  "i < length (threads st) \<Longrightarrow> t_pc (threads st ! i) = Start \<Longrightarrow>
   thread_func_step i st =
     (case increment_node_load (t_node (threads st ! i)) (node_load (self st)) of
        Inl e \<Rightarrow> set_pc i Done (add_log (ThreadDied (t_node (threads st ! i)) e) st)
      | Inr d \<Rightarrow> set_pc i Called (set_node_load d st))"
  by (simp add: thread_func_step_def Let_def)

lemma step_Called:
  "i < length (threads st) \<Longrightarrow> t_pc (threads st ! i) = Called \<Longrightarrow>
   thread_func_step i st =
     (case t_reply (threads st ! i) of
        InitRaised \<Rightarrow> set_pc i Finally (add_log (NodeFailed (t_node (threads st ! i)) RemoteError) st)
      | InitReplied status tr \<Rightarrow>
          if status = ACCEPTED then
            (case tr of
               TrainRaised \<Rightarrow> set_pc i Finally (add_log (NodeFailed (t_node (threads st ! i)) RemoteError) st)
             | TrainResult dV dW \<Rightarrow> set_pc i (MergeV dV dW) st)
          else set_pc i Finally st)"
  by (simp add: thread_func_step_def Let_def)

lemma step_MergeV:
  "i < length (threads st) \<Longrightarrow> t_pc (threads st ! i) = MergeV dV dW \<Longrightarrow>
   thread_func_step i st =
     (case SharedGradient_update (shared_gradient_V st) dV of
        Inl e \<Rightarrow> set_pc i Finally (add_log (NodeFailed (t_node (threads st ! i)) e) st)
      | Inr g \<Rightarrow> set_pc i (MergeW dW) (st\<lparr>shared_gradient_V := g\<rparr>))"
  by (simp add: thread_func_step_def Let_def)

lemma step_MergeW:
  "i < length (threads st) \<Longrightarrow> t_pc (threads st ! i) = MergeW dW \<Longrightarrow>
   thread_func_step i st =
     (case SharedGradient_update (shared_gradient_W st) dW of
        Inl e \<Rightarrow> set_pc i Finally (add_log (NodeFailed (t_node (threads st ! i)) e) st)
      | Inr g \<Rightarrow> set_pc i Finally (st\<lparr>shared_gradient_W := g\<rparr>))"
  by (simp add: thread_func_step_def Let_def)

lemma step_Finally:
  "i < length (threads st) \<Longrightarrow> t_pc (threads st ! i) = Finally \<Longrightarrow>
   thread_func_step i st =
     (case decrement_node_load (t_node (threads st ! i)) (node_load (self st)) of
        Inl e \<Rightarrow> set_pc i Done (add_log (ThreadDied (t_node (threads st ! i)) e) st)
      | Inr d \<Rightarrow> set_pc i Done (set_node_load d st))"
  by (simp add: thread_func_step_def Let_def)

lemma step_Done:
  "t_pc (threads st ! i) = Done \<Longrightarrow> thread_func_step i st = st"
  by (simp add: thread_func_step_def Let_def)

lemmas step_pc = step_Start step_Called step_MergeV step_MergeW step_Finally step_Done

lemma frame_thread_func_step:
  assumes "frame h st"
  shows "frame h (thread_func_step i st)"
proof (cases "i < length (threads st)")
  case False
  then show ?thesis using assms by (simp add: step_out_of_range)
next
  case True
  show ?thesis
  proof (cases "t_pc (threads st ! i)")
    case Start
    then show ?thesis using assms True
      by (auto simp: step_pc frame_def split: sum.splits dest: increment_keys)
  next
    case Called
    then show ?thesis using assms True
      by (auto simp: step_pc frame_def split: remote.splits train_reply.splits)
  next
    case (MergeV dV dW)
    then show ?thesis using assms True
      by (auto simp: step_pc frame_def split: sum.splits)
  next
    case (MergeW dW)
    then show ?thesis using assms True
      by (auto simp: step_pc frame_def split: sum.splits)
  next
    case Finally
    then show ?thesis using assms True
      by (auto simp: step_pc frame_def split: sum.splits dest: decrement_keys)
  next
    case Done
    then show ?thesis using assms by (simp add: step_pc)
  qed
qed

lemma frame_spawn_step: "frame h st \<Longrightarrow> frame h (spawn_step st)"
  by (auto simp: frame_def spawn_step_def split: option.splits list.splits sum.splits)

lemma frame_exec_action: "frame h st \<Longrightarrow> frame h (exec_action a st)"
  by (cases a) (simp_all add: frame_thread_func_step frame_spawn_step)

section \<open>Load accounting over a round\<close>

lemma holds_load_update [simp]:
  "holds_load n (t\<lparr>t_pc := p\<rparr>) = (if t_node t = n \<and> active p then 1 else 0)"
  by (simp add: holds_load_def)

lemma inflight_Nil [simp]: "inflight [] n = 0"
  by (simp add: inflight_def)































section \<open>Wrong-shaped gradients\<close>

lemma wrong_shape_update:
  "shape delta \<noteq> shape (gradient sg) \<Longrightarrow> SharedGradient_update sg delta = Inl ShapeMismatch"
  by (auto simp: SharedGradient_update_def sum_matricies_def)

text \<open>
  Claim C2. A delta whose shape differs from the accumulator's is refused by \<open>update\<close>:
  the method raises before it assigns, so the sum is untouched. In the dispatch task the
  exception reaches the handler of \<open>thread_func\<close>, which prints the failure of the node;
  the task goes on to release its load, and nothing of that contribution is merged from
  that step on. This holds for the accumulator of V (thread \<open>i\<close> of state \<open>st\<close>) and
  for the accumulator of W (thread \<open>j\<close> of state \<open>st2\<close>).
\<close>

theorem wrong_shape_delta_dropped:
  assumes "shape delta \<noteq> shape (gradient sg)"
  shows "SharedGradient_update sg delta = Inl ShapeMismatch
       \<and> (i < length (threads st) \<and> t_pc (threads st ! i) = MergeV delta dW \<and> shared_gradient_V st = sg \<longrightarrow>
            shared_gradient_V (thread_func_step i st) = sg
            \<and> shared_gradient_W (thread_func_step i st) = shared_gradient_W st
            \<and> log_lines (thread_func_step i st)
                = log_lines st @ [NodeFailed (t_node (threads st ! i)) ShapeMismatch]
            \<and> t_pc (threads (thread_func_step i st) ! i) = Finally)
       \<and> (j < length (threads st2) \<and> t_pc (threads st2 ! j) = MergeW delta \<and> shared_gradient_W st2 = sg \<longrightarrow>
            shared_gradient_W (thread_func_step j st2) = sg
            \<and> shared_gradient_V (thread_func_step j st2) = shared_gradient_V st2
            \<and> log_lines (thread_func_step j st2)
                = log_lines st2 @ [NodeFailed (t_node (threads st2 ! j)) ShapeMismatch]
            \<and> t_pc (threads (thread_func_step j st2) ! j) = Finally)"
proof (intro conjI impI)
  show "SharedGradient_update sg delta = Inl ShapeMismatch"
    using assms by (rule wrong_shape_update)
next
  assume a: "i < length (threads st) \<and> t_pc (threads st ! i) = MergeV delta dW \<and> shared_gradient_V st = sg"
  then have u: "SharedGradient_update (shared_gradient_V st) delta = Inl ShapeMismatch"
    using assms by (simp add: wrong_shape_update)
  have s: "thread_func_step i st
      = set_pc i Finally (add_log (NodeFailed (t_node (threads st ! i)) ShapeMismatch) st)"
    using a u by (simp add: step_MergeV)
  show "shared_gradient_V (thread_func_step i st) = sg" using a by (simp add: s)
  show "shared_gradient_W (thread_func_step i st) = shared_gradient_W st" by (simp add: s)
  show "log_lines (thread_func_step i st)
      = log_lines st @ [NodeFailed (t_node (threads st ! i)) ShapeMismatch]" by (simp add: s)
  show "t_pc (threads (thread_func_step i st) ! i) = Finally" using a by (simp add: s)
next
  assume a: "j < length (threads st2) \<and> t_pc (threads st2 ! j) = MergeW delta \<and> shared_gradient_W st2 = sg"
  then have u: "SharedGradient_update (shared_gradient_W st2) delta = Inl ShapeMismatch"
    using assms by (simp add: wrong_shape_update)
  have s: "thread_func_step j st2
      = set_pc j Finally (add_log (NodeFailed (t_node (threads st2 ! j)) ShapeMismatch) st2)"
    using a u by (simp add: step_MergeW)
  show "shared_gradient_W (thread_func_step j st2) = sg" using a by (simp add: s)
  show "shared_gradient_V (thread_func_step j st2) = shared_gradient_V st2" by (simp add: s)
  show "log_lines (thread_func_step j st2)
      = log_lines st2 @ [NodeFailed (t_node (threads st2 ! j)) ShapeMismatch]" by (simp add: s)
  show "t_pc (threads (thread_func_step j st2) ! j) = Finally" using a by (simp add: s)
qed

theorem wrong_shape_delta_dropped_witness:
  "shape (zeros [3]) \<noteq> shape (gradient (SharedGradient_init [2, 2]))
   \<and> SharedGradient_update (SharedGradient_init [2, 2]) (zeros [3]) = Inl ShapeMismatch
   \<and> shared_gradient_V (thread_func_step 0
        \<lparr>self = CoordinatorHandler_init 2 \<lparr>weights_V = zeros [1], weights_W = zeros [1]\<rparr> [(''a'', 1)],
         shared_gradient_V = SharedGradient_init [2, 2], shared_gradient_W = SharedGradient_init [2, 2],
         threads = [\<lparr>t_node = (''a'', 1), t_file = ''f'',
                     t_reply = InitReplied ACCEPTED (TrainResult (zeros [3]) (zeros [3])),
                     t_pc = MergeV (zeros [3]) (zeros [3])\<rparr>],
         work_queue = [], raised = None, log_lines = []\<rparr>) = SharedGradient_init [2, 2]
   \<and> shared_gradient_W (thread_func_step 0
        \<lparr>self = CoordinatorHandler_init 2 \<lparr>weights_V = zeros [1], weights_W = zeros [1]\<rparr> [(''a'', 1)],
         shared_gradient_V = SharedGradient_init [2, 2], shared_gradient_W = SharedGradient_init [2, 2],
         threads = [\<lparr>t_node = (''a'', 1), t_file = ''f'',
                     t_reply = InitReplied ACCEPTED (TrainResult (zeros [3]) (zeros [3])),
                     t_pc = MergeW (zeros [3])\<rparr>],
         work_queue = [], raised = None, log_lines = []\<rparr>) = SharedGradient_init [2, 2]"
proof -
  let ?h = "CoordinatorHandler_init 2 \<lparr>weights_V = zeros [1], weights_W = zeros [1]\<rparr> [(''a'', 1)]"
  let ?r = "InitReplied ACCEPTED (TrainResult (zeros [3]) (zeros [3]))"
  let ?st = "\<lparr>self = ?h,
         shared_gradient_V = SharedGradient_init [2, 2], shared_gradient_W = SharedGradient_init [2, 2],
         threads = [\<lparr>t_node = (''a'', 1), t_file = ''f'', t_reply = ?r,
                     t_pc = MergeV (zeros [3]) (zeros [3])\<rparr>],
         work_queue = [], raised = None, log_lines = []\<rparr>"
  let ?st2 = "\<lparr>self = ?h,
         shared_gradient_V = SharedGradient_init [2, 2], shared_gradient_W = SharedGradient_init [2, 2],
         threads = [\<lparr>t_node = (''a'', 1), t_file = ''f'', t_reply = ?r,
                     t_pc = MergeW (zeros [3])\<rparr>],
         work_queue = [], raised = None, log_lines = []\<rparr>"
  have h: "shape (zeros [3]) \<noteq> shape (gradient (SharedGradient_init [2, 2]))"
    by (simp add: zeros_def SharedGradient_init_def)
  note T = wrong_shape_delta_dropped [OF h, of 0 ?st "zeros [3]" 0 ?st2]
  have a1: "0 < length (threads ?st) \<and> t_pc (threads ?st ! 0) = MergeV (zeros [3]) (zeros [3])
      \<and> shared_gradient_V ?st = SharedGradient_init [2, 2]" by simp
  have a2: "0 < length (threads ?st2) \<and> t_pc (threads ?st2 ! 0) = MergeW (zeros [3])
      \<and> shared_gradient_W ?st2 = SharedGradient_init [2, 2]" by simp
  have c1: "SharedGradient_update (SharedGradient_init [2, 2]) (zeros [3]) = Inl ShapeMismatch"
    using T by (rule conjunct1)
  have c2: "shared_gradient_V (thread_func_step 0 ?st) = SharedGradient_init [2, 2]"
    using T [THEN conjunct2, THEN conjunct1, THEN mp, OF a1] by (rule conjunct1)
  have c3: "shared_gradient_W (thread_func_step 0 ?st2) = SharedGradient_init [2, 2]"
    using T [THEN conjunct2, THEN conjunct2, THEN mp, OF a2] by (rule conjunct1)
  from h c1 c2 c3 show ?thesis by (intro conjI)
qed

section \<open>A round without contributions\<close>

lemma all_fail_thread_func_step:
  assumes "all_fail sV st" and "shape (gradient (shared_gradient_V st)) = sV"
  shows "all_fail sV (thread_func_step i st)
       \<and> shared_gradient_V (thread_func_step i st) = shared_gradient_V st
       \<and> shared_gradient_W (thread_func_step i st) = shared_gradient_W st"
proof (cases "i < length (threads st)")
  case False
  then show ?thesis using assms by (simp add: step_out_of_range)
next
  case True
  let ?t = "threads st ! i"
  have tin: "?t \<in> set (threads st)" using True by simp
  then have tf: "merges_nothing sV (t_reply ?t)" and nm: "no_merge_ahead sV (t_pc ?t)"
    using assms(1) by (auto simp: all_fail_def)
  have keep: "all_fail sV (st'\<lparr>threads := (threads st)[i := ?t\<lparr>t_pc := p\<rparr>]\<rparr>)"
    if "no_merge_ahead sV p" "work_queue st' = work_queue st" for p st'
  proof -
    have "\<forall>t \<in> set ((threads st)[i := ?t\<lparr>t_pc := p\<rparr>]).
            merges_nothing sV (t_reply t) \<and> no_merge_ahead sV (t_pc t)"
    proof
      fix t assume "t \<in> set ((threads st)[i := ?t\<lparr>t_pc := p\<rparr>])"
      then have "t \<in> insert (?t\<lparr>t_pc := p\<rparr>) (set (threads st))"
        using set_update_subset_insert by fastforce
      then show "merges_nothing sV (t_reply t) \<and> no_merge_ahead sV (t_pc t)"
        using assms(1) tf that(1) by (auto simp: all_fail_def)
    qed
    then show ?thesis using assms(1) that(2) by (simp add: all_fail_def)
  qed
  show ?thesis
  proof (cases "t_pc ?t")
    case Start
    then show ?thesis using True keep [of Done] keep [of Called]
      by (auto simp: step_Start set_pc_def add_log_def set_node_load_def split: sum.splits)
  next
    case Called
    show ?thesis
    proof (cases "t_reply ?t")
      case InitRaised
      then show ?thesis using True Called keep [of Finally]
        by (auto simp: step_Called set_pc_def add_log_def)
    next
      case (InitReplied status tr)
      show ?thesis
      proof (cases "status = ACCEPTED")
        case False
        then show ?thesis using True Called InitReplied keep [of Finally]
          by (auto simp: step_Called set_pc_def add_log_def)
      next
        case acc: True
        show ?thesis
        proof (cases tr)
          case TrainRaised
          then show ?thesis using True Called InitReplied acc keep [of Finally]
            by (auto simp: step_Called set_pc_def add_log_def)
        next
          case (TrainResult dV dW)
          then have "shape dV \<noteq> sV" using tf InitReplied acc by simp
          then have "no_merge_ahead sV (MergeV dV dW)" by simp
          from keep [OF this, of st] show ?thesis using True Called InitReplied acc TrainResult
            by (simp add: step_Called set_pc_def)
        qed
      qed
    qed
  next
    case (MergeV dV dW)
    then have "shape dV \<noteq> shape (gradient (shared_gradient_V st))"
      using nm assms(2) by simp
    then have u: "SharedGradient_update (shared_gradient_V st) dV = Inl ShapeMismatch"
      by (rule wrong_shape_update)
    show ?thesis using True MergeV u keep [of Finally]
      by (auto simp: step_MergeV set_pc_def add_log_def)
  next
    case (MergeW dW)
    then show ?thesis using nm by simp
  next
    case Finally
    then show ?thesis using True keep [of Done]
      by (auto simp: step_Finally set_pc_def add_log_def set_node_load_def split: sum.splits)
  next
    case Done
    then show ?thesis using assms by (simp add: step_Done)
  qed
qed

lemma all_fail_spawn_step:
  assumes "all_fail sV st"
  shows "all_fail sV (spawn_step st)
       \<and> shared_gradient_V (spawn_step st) = shared_gradient_V st
       \<and> shared_gradient_W (spawn_step st) = shared_gradient_W st"
  using assms
  by (auto simp: all_fail_def spawn_step_def split: option.splits list.splits sum.splits)

lemma all_fail_exec_action:
  assumes "shape (gradient gV) = sV"
    and "all_fail sV st \<and> shared_gradient_V st = gV \<and> shared_gradient_W st = gW"
  shows "all_fail sV (exec_action a st) \<and> shared_gradient_V (exec_action a st) = gV
     \<and> shared_gradient_W (exec_action a st) = gW"
proof (cases a)
  case Spawn
  then show ?thesis using all_fail_spawn_step [of sV st] assms(2) by simp
next
  case (Run i)
  have "shape (gradient (shared_gradient_V st)) = sV" using assms by simp
  from all_fail_thread_func_step [OF _ this, of i] assms(2) Run show ?thesis by simp
qed

lemma select_succeeds:
  assumes "can_select h" and "frame h st"
  shows "\<exists>n. select_compute_node (self st) r = Inr n"
proof (cases "scheduling_policy h = 1")
  case True
  then have "compute_nodes (self st) \<noteq> []" and "scheduling_policy (self st) = 1"
    using assms by (auto simp: can_select_def frame_def)
  then show ?thesis by (simp add: select_compute_node_def random_choice_def)
next
  case False
  then have "node_load h \<noteq> []" using assms(1) by (simp add: can_select_def)
  then have "map fst (node_load (self st)) \<noteq> []" using assms(2) by (simp add: frame_def)
  moreover have "scheduling_policy (self st) \<noteq> 1" using False assms(2) by (simp add: frame_def)
  ultimately show ?thesis
    by (cases "node_load (self st)") (auto simp: select_compute_node_def py_min_key_def)
qed

lemma raised_thread_func_step: "raised (thread_func_step i st) = raised st"
proof (cases "i < length (threads st)")
  case False
  then show ?thesis by (simp add: step_out_of_range)
next
  case True
  then show ?thesis
    by (cases "t_pc (threads st ! i)")
       (auto simp: step_pc split: sum.splits remote.splits train_reply.splits)
qed

lemma not_raised_exec_action:
  assumes "can_select h" and "frame h st \<and> raised st = None"
  shows "frame h (exec_action a st) \<and> raised (exec_action a st) = None"
proof
  show "frame h (exec_action a st)" using assms(2) by (simp add: frame_exec_action)
  show "raised (exec_action a st) = None"
  proof (cases a)
    case Spawn
    from select_succeeds [OF assms(1)] assms(2)
    have "\<And>r. \<exists>n. select_compute_node (self st) r = Inr n" by blast
    then show ?thesis using Spawn assms(2)
      by (auto simp: spawn_step_def split: option.splits list.splits sum.splits) (metis Inl_Inr_False)
  next
    case (Run i)
    then show ?thesis using assms(2) by (simp add: raised_thread_func_step)
  qed
qed

lemma training_round_unfold:
  "training_round validate dir env ls
        = (let st = dispatch_and_join (sched env)
                 \<lparr>self = ls_self ls,
                  shared_gradient_V = SharedGradient_reset (ls_gradient_V ls),
                  shared_gradient_W = SharedGradient_reset (ls_gradient_W ls),
                  threads = [], work_queue = make_work_queue dir env, raised = None,
                  log_lines = ls_log ls\<rparr>
           in case raised st of
             Some e \<Rightarrow> Inl e
           | None \<Rightarrow>
               (case SharedGradient_average (shared_gradient_V st) 11 of
                  Inl e \<Rightarrow> Inl e
                | Inr avg_gradient_V \<Rightarrow>
                    (case SharedGradient_average (shared_gradient_W st) 11 of
                       Inl e \<Rightarrow> Inl e
                     | Inr avg_gradient_W \<Rightarrow>
                         let res = apply_update (self st) avg_gradient_V avg_gradient_W
                                     (weights_V (mlp_model (ls_self ls))) (weights_W (mlp_model (ls_self ls)))
                         in Inr \<lparr>ls_self = fst res,
                                 ls_gradient_V = shared_gradient_V st,
                                 ls_gradient_W = shared_gradient_W st,
                                 val_error = Some (validate (mlp_model (fst res)) (dir @ ''/train_letters11.txt'')),
                                 ls_log = log_lines st @ snd res\<rparr>)))"
  by (simp add: training_round_def get_weights_def Let_def case_prod_beta split: option.splits sum.splits)

lemma training_round_result:
  assumes "st = dispatch_and_join (sched env)
                 \<lparr>self = ls_self ls,
                  shared_gradient_V = SharedGradient_reset (ls_gradient_V ls),
                  shared_gradient_W = SharedGradient_reset (ls_gradient_W ls),
                  threads = [], work_queue = make_work_queue dir env, raised = None,
                  log_lines = ls_log ls\<rparr>"
    and "raised st = None"
    and "SharedGradient_average (shared_gradient_V st) 11 = Inr avg_V"
    and "SharedGradient_average (shared_gradient_W st) 11 = Inr avg_W"
    and "res = apply_update (self st) avg_V avg_W
                 (weights_V (mlp_model (ls_self ls))) (weights_W (mlp_model (ls_self ls)))"
  shows "training_round validate dir env ls
      = Inr \<lparr>ls_self = fst res, ls_gradient_V = shared_gradient_V st,
             ls_gradient_W = shared_gradient_W st,
             val_error = Some (validate (mlp_model (fst res)) (dir @ ''/train_letters11.txt'')),
             ls_log = log_lines st @ snd res\<rparr>"
proof -
  note u = training_round_unfold [of validate dir env ls, folded assms(1)]
  show ?thesis
    unfolding u Let_def assms(2) assms(3) assms(4) by (simp add: assms(5))
qed

lemma map2_add_zeros: "length xs = n \<Longrightarrow> map2 (+) xs (replicate n (0::real)) = xs"
proof (induction xs arbitrary: n)
  case Nil
  then show ?case by simp
next
  case (Cons x xs)
  then obtain k where "n = Suc k" and "length xs = k" by (cases n) auto
  with Cons.IH show ?case by simp
qed

lemma add_zeros: "wf_ndarray a \<Longrightarrow> add_elementwise a (zeros (shape a)) = a"
  by (simp add: add_elementwise_def zeros_def wf_ndarray_def map2_add_zeros)

lemma update_weights_zeros:
  "wf_ndarray (weights_V m) \<Longrightarrow> wf_ndarray (weights_W m) \<Longrightarrow>
   update_weights m (zeros (shape (weights_V m))) (zeros (shape (weights_W m))) = m"
  by (simp add: update_weights_def add_zeros)

lemma average_zeros:
  "SharedGradient_average (SharedGradient_reset sg) n = Inr (zeros (shape (gradient sg)))"
  by (simp add: SharedGradient_average_def py_truediv_def SharedGradient_reset_def zeros_like_def
      scale_zeros max_def)

lemma shape_zeros [simp]: "shape (zeros shp) = shp"
  by (simp add: zeros_def)

lemma make_work_queue_fails:
  "\<forall>i. merges_nothing sV (replies env i) \<Longrightarrow>
   \<forall>tk \<in> set (make_work_queue dir env). merges_nothing sV (reply tk)"
  by (auto simp: make_work_queue_def)

lemma apply_update_zeros:
  assumes "wf_ndarray V" and "wf_ndarray W" and "get_weights (mlp_model h) = (V, W)"
  shows "mlp_model (fst (apply_update h (zeros sV) (zeros sW) V W)) = mlp_model h"
proof (cases "sW = shape W \<and> sV = shape V")
  case True
  have "update_weights (mlp_model h) (zeros (shape V)) (zeros (shape W)) = mlp_model h"
    using assms update_weights_zeros [of "mlp_model h"] by (simp add: get_weights_def)
  then show ?thesis using True by (simp add: apply_update_def)
next
  case False
  then show ?thesis by (auto simp: apply_update_def)
qed

text \<open>
  Claim C8, as the code has it. When an averaged gradient has not the shape of the
  corresponding weight matrix read at the start of the round, the update is skipped: the
  handler, and with it the model, is unchanged and the skip is printed. And when a node can
  be selected, a round in which every task ends without having merged anything (it is
  rejected, its remote calls raise, or its \<open>dV\<close> is refused by the accumulator of V)
  returns, however its threads interleave, with the weights it started with and with the
  validation error of that unchanged model on \<open>train_letters11.txt\<close>; the two weight
  matrices have as many elements as their shapes say.
\<close>

theorem failed_round_keeps_weights:
  "(shape avg_W \<noteq> shape W \<or> shape avg_V \<noteq> shape V \<longrightarrow>
      apply_update h avg_V avg_W V W = (h, [UpdateSkipped]))
   \<and> (can_select (ls_self ls)
        \<and> (\<forall>i. merges_nothing (shape (gradient (ls_gradient_V ls))) (replies env i))
        \<and> wf_ndarray (weights_V (mlp_model (ls_self ls)))
        \<and> wf_ndarray (weights_W (mlp_model (ls_self ls))) \<longrightarrow>
      (\<exists>ls'. training_round validate dir env ls = Inr ls'
           \<and> mlp_model (ls_self ls') = mlp_model (ls_self ls)
           \<and> val_error ls' = Some (validate (mlp_model (ls_self ls)) (dir @ ''/train_letters11.txt''))))"
proof (intro conjI impI)
  assume "shape avg_W \<noteq> shape W \<or> shape avg_V \<noteq> shape V"
  then show "apply_update h avg_V avg_W V W = (h, [UpdateSkipped])"
    by (auto simp: apply_update_def)
next
  assume a: "can_select (ls_self ls)
        \<and> (\<forall>i. merges_nothing (shape (gradient (ls_gradient_V ls))) (replies env i))
        \<and> wf_ndarray (weights_V (mlp_model (ls_self ls)))
        \<and> wf_ndarray (weights_W (mlp_model (ls_self ls)))"
  let ?h = "ls_self ls"
  let ?V = "weights_V (mlp_model ?h)"
  let ?W = "weights_W (mlp_model ?h)"
  define sV where "sV = shape (gradient (ls_gradient_V ls))"
  define sW where "sW = shape (gradient (ls_gradient_W ls))"
  define gV where "gV = SharedGradient_reset (ls_gradient_V ls)"
  define gW where "gW = SharedGradient_reset (ls_gradient_W ls)"
  define st0 where "st0 = \<lparr>self = ?h, shared_gradient_V = gV, shared_gradient_W = gW,
       threads = [], work_queue = make_work_queue dir env, raised = None,
       log_lines = ls_log ls\<rparr>"
  define st where "st = dispatch_and_join (sched env) st0"
  from a have cs: "can_select ?h" and fl: "\<forall>i. merges_nothing sV (replies env i)"
    and wfV: "wf_ndarray ?V" and wfW: "wf_ndarray ?W"
    unfolding sV_def by blast+
  have shp: "shape (gradient gV) = sV"
    by (simp add: gV_def sV_def SharedGradient_reset_def zeros_like_def zeros_def)
  have st_eq: "st = dispatch_and_join (sched env)
                 \<lparr>self = ls_self ls,
                  shared_gradient_V = SharedGradient_reset (ls_gradient_V ls),
                  shared_gradient_W = SharedGradient_reset (ls_gradient_W ls),
                  threads = [], work_queue = make_work_queue dir env, raised = None,
                  log_lines = ls_log ls\<rparr>"
    by (simp only: st_def st0_def gV_def gW_def)
  have q: "\<forall>tk \<in> set (work_queue st0). merges_nothing sV (reply tk)"
    using make_work_queue_fails [OF fl, of dir] by (simp add: st0_def)
  have af0: "all_fail sV st0 \<and> shared_gradient_V st0 = gV \<and> shared_gradient_W st0 = gW"
    using q by (simp add: st0_def all_fail_def)
  have af: "all_fail sV st \<and> shared_gradient_V st = gV \<and> shared_gradient_W st = gW"
    unfolding st_def
    by (rule dispatch_and_join_invariant
          [where P = "\<lambda>s. all_fail sV s \<and> shared_gradient_V s = gV \<and> shared_gradient_W s = gW",
           OF af0 all_fail_exec_action [OF shp]])
  have fr0: "frame ?h st0 \<and> raised st0 = None" by (simp add: st0_def frame_def)
  have fr: "frame ?h st \<and> raised st = None"
    unfolding st_def
    by (rule dispatch_and_join_invariant
          [where P = "\<lambda>s. frame ?h s \<and> raised s = None",
           OF fr0 not_raised_exec_action [OF cs]])
  have r: "raised st = None" using fr by blast
  have m: "mlp_model (self st) = mlp_model ?h" using fr by (simp add: frame_def)
  have avV: "SharedGradient_average (shared_gradient_V st) 11 = Inr (zeros sV)"
    using af by (simp add: gV_def sV_def average_zeros)
  have avW: "SharedGradient_average (shared_gradient_W st) 11 = Inr (zeros sW)"
    using af by (simp add: gW_def sW_def average_zeros)
  define res where "res = apply_update (self st) (zeros sV) (zeros sW) ?V ?W"
  have gw: "get_weights (mlp_model (self st)) = (?V, ?W)" using m by (simp add: get_weights_def)
  have keep: "mlp_model (fst res) = mlp_model ?h"
    unfolding res_def using apply_update_zeros [OF wfV wfW gw, of sV sW] m by simp
  note tr = training_round_result [OF st_eq r avV avW res_def, of validate]
  show "\<exists>ls'. training_round validate dir env ls = Inr ls'
           \<and> mlp_model (ls_self ls') = mlp_model ?h
           \<and> val_error ls' = Some (validate (mlp_model ?h) (dir @ ''/train_letters11.txt''))"
    unfolding tr using keep by simp
qed

theorem failed_round_keeps_weights_witness:
  "shape (zeros [2]) \<noteq> shape (zeros [1])
   \<and> apply_update (CoordinatorHandler_init 2 \<lparr>weights_V = zeros [1], weights_W = zeros [1]\<rparr> [(''a'', 1)])
        (zeros [1]) (zeros [2]) (zeros [1]) (zeros [1])
       = (CoordinatorHandler_init 2 \<lparr>weights_V = zeros [1], weights_W = zeros [1]\<rparr> [(''a'', 1)], [UpdateSkipped])
   \<and> can_select (CoordinatorHandler_init 2 \<lparr>weights_V = zeros [1], weights_W = zeros [1]\<rparr> [(''a'', 1)])
   \<and> (\<forall>i. merges_nothing [1]
          (replies \<lparr>draws = (\<lambda>i. 0),
                    replies = (\<lambda>i. InitReplied ACCEPTED (TrainResult (zeros [2]) (zeros [1]))),
                    sched = [Spawn, Run 0]\<rparr> i))
   \<and> wf_ndarray (zeros [1])
   \<and> (\<exists>ls'. training_round (\<lambda>m f. 0) ''d''
                \<lparr>draws = (\<lambda>i. 0),
                 replies = (\<lambda>i. InitReplied ACCEPTED (TrainResult (zeros [2]) (zeros [1]))),
                 sched = [Spawn, Run 0]\<rparr>
                \<lparr>ls_self = CoordinatorHandler_init 2 \<lparr>weights_V = zeros [1], weights_W = zeros [1]\<rparr> [(''a'', 1)],
                 ls_gradient_V = SharedGradient_init [1], ls_gradient_W = SharedGradient_init [1],
                 val_error = None, ls_log = []\<rparr> = Inr ls'
           \<and> mlp_model (ls_self ls') = \<lparr>weights_V = zeros [1], weights_W = zeros [1]\<rparr>
           \<and> val_error ls' = Some 0)"
proof -
  let ?m = "\<lparr>weights_V = zeros [1], weights_W = zeros [1]\<rparr>"
  let ?h = "CoordinatorHandler_init 2 ?m [(''a'', 1)]"
  let ?env = "\<lparr>draws = (\<lambda>i. 0),
               replies = (\<lambda>i. InitReplied ACCEPTED (TrainResult (zeros [2]) (zeros [1]))),
               sched = [Spawn, Run 0]\<rparr>"
  let ?ls = "\<lparr>ls_self = ?h, ls_gradient_V = SharedGradient_init [1],
              ls_gradient_W = SharedGradient_init [1], val_error = None, ls_log = []\<rparr>"
  note T = failed_round_keeps_weights [of "zeros [2]" "zeros [1]" "zeros [1]" "zeros [1]" ?h ?ls ?env
      "\<lambda>m f. 0" "''d''"]
  have h1: "shape (zeros [2]) \<noteq> shape (zeros [1]) \<or> shape (zeros [1]) \<noteq> shape (zeros [1])"
    by (simp add: zeros_def)
  have h2: "can_select ?h"
    by (simp add: can_select_def CoordinatorHandler_init_def zero_load_def)
  have h3: "\<forall>i. merges_nothing [1] (replies ?env i)" by (simp add: zeros_def)
  have h4: "wf_ndarray (zeros [1])" by (simp add: wf_ndarray_def zeros_def)
  have pre: "can_select (ls_self ?ls)
      \<and> (\<forall>i. merges_nothing (shape (gradient (ls_gradient_V ?ls))) (replies ?env i))
      \<and> wf_ndarray (weights_V (mlp_model (ls_self ?ls)))
      \<and> wf_ndarray (weights_W (mlp_model (ls_self ?ls)))"
    using h2 h3 h4 by (simp add: CoordinatorHandler_init_def SharedGradient_init_def zeros_def)
  have c1: "apply_update ?h (zeros [1]) (zeros [2]) (zeros [1]) (zeros [1]) = (?h, [UpdateSkipped])"
    using T [THEN conjunct1, THEN mp, OF h1] .
  have c2: "\<exists>ls'. training_round (\<lambda>m f. 0) ''d'' ?env ?ls = Inr ls'
           \<and> mlp_model (ls_self ls') = ?m \<and> val_error ls' = Some 0"
    using T [THEN conjunct2, THEN mp, OF pre] by (simp add: CoordinatorHandler_init_def)
  have h0: "shape (zeros [2]) \<noteq> shape (zeros [1])" by (simp add: zeros_def)
  from h0 c1 h2 h3 h4 c2 show ?thesis by (intro conjI)
qed

text \<open>
  Claim C8, as stated, fails. In the first round below every one of the eleven tasks fails:
  its \<open>dV\<close> is merged, its \<open>dW\<close> has a wrong shape and is refused, and its thread
  prints the failure of the node. The sum of V is then 11, its average 1, and the update
  changes the weights of V from 0 to 1. In the second round the registry is empty: no task
  is dispatched, the selection raises \<open>ValueError\<close> and no validation error is produced.
\<close>

theorem failed_round_changes_weights:
  "training_round (\<lambda>m f. 0) ''d''
      \<lparr>draws = (\<lambda>i. 0),
       replies = (\<lambda>i. InitReplied ACCEPTED
                    (TrainResult \<lparr>shape = [1], elems = [1]\<rparr> \<lparr>shape = [2], elems = [0, 0]\<rparr>)),
       sched = []\<rparr>
      \<lparr>ls_self = \<lparr>scheduling_policy = 2,
                  mlp_model = \<lparr>weights_V = \<lparr>shape = [1], elems = [0]\<rparr>,
                               weights_W = \<lparr>shape = [1], elems = [0]\<rparr>\<rparr>,
                  compute_nodes = [(''a'', 1)], node_load = [((''a'', 1), 0)]\<rparr>,
       ls_gradient_V = \<lparr>gradient = \<lparr>shape = [1], elems = [0]\<rparr>\<rparr>,
       ls_gradient_W = \<lparr>gradient = \<lparr>shape = [1], elems = [0]\<rparr>\<rparr>,
       val_error = None, ls_log = []\<rparr>
   = Inr \<lparr>ls_self = \<lparr>scheduling_policy = 2,
                  mlp_model = \<lparr>weights_V = \<lparr>shape = [1], elems = [1]\<rparr>,
                               weights_W = \<lparr>shape = [1], elems = [0]\<rparr>\<rparr>,
                  compute_nodes = [(''a'', 1)], node_load = [((''a'', 1), 0)]\<rparr>,
       ls_gradient_V = \<lparr>gradient = \<lparr>shape = [1], elems = [11]\<rparr>\<rparr>,
       ls_gradient_W = \<lparr>gradient = \<lparr>shape = [1], elems = [0]\<rparr>\<rparr>,
       val_error = Some 0,
       ls_log = replicate 11 (NodeFailed (''a'', 1) ShapeMismatch)\<rparr>
   \<and> training_round (\<lambda>m f. 0) ''d''
      \<lparr>draws = (\<lambda>i. 0), replies = (\<lambda>i. InitRaised), sched = []\<rparr>
      \<lparr>ls_self = \<lparr>scheduling_policy = 2,
                  mlp_model = \<lparr>weights_V = \<lparr>shape = [1], elems = [0]\<rparr>,
                               weights_W = \<lparr>shape = [1], elems = [0]\<rparr>\<rparr>,
                  compute_nodes = [], node_load = []\<rparr>,
       ls_gradient_V = \<lparr>gradient = \<lparr>shape = [1], elems = [0]\<rparr>\<rparr>,
       ls_gradient_W = \<lparr>gradient = \<lparr>shape = [1], elems = [0]\<rparr>\<rparr>,
       val_error = None, ls_log = []\<rparr>
   = Inl ValueError"
  by code_simp

end
